theory Spec2Isabelle
  imports Complex_Main
begin

section \<open>JavaScript values used by the sources\<close>

text \<open>
  Strings are \<^typ>\<open>string\<close> (ASCII text, one \<^typ>\<open>char\<close> per code unit). An optional or
  possibly undefined property is an \<^typ>\<open>'a option\<close>. The operators \<open>||\<close>, \<open>&&\<close> and \<open>!\<close> test
  truthiness: the empty string, the number zero and \<open>undefined\<close> are falsy.
\<close>

definition truthy_str :: "string option \<Rightarrow> bool" where
  "truthy_str s = (case s of None \<Rightarrow> False | Some t \<Rightarrow> t \<noteq> [])"

definition or_str :: "string option \<Rightarrow> string option \<Rightarrow> string option" where
  \<comment> \<open>\<open>a || b\<close> on possibly undefined strings\<close>
  "or_str a b = (if truthy_str a then a else b)"

definition or_default :: "string option \<Rightarrow> string \<Rightarrow> string" where
  \<comment> \<open>\<open>a || d\<close> on a possibly undefined string with a string default\<close>
  "or_default a d = (case a of None \<Rightarrow> d | Some t \<Rightarrow> if t \<noteq> [] then t else d)"

definition or_int :: "int option \<Rightarrow> int \<Rightarrow> int" where
  \<comment> \<open>\<open>a || d\<close> on a possibly undefined number with a numeric default\<close>
  "or_int a d = (case a of None \<Rightarrow> d | Some n \<Rightarrow> if n \<noteq> 0 then n else d)"

definition or_real :: "real option \<Rightarrow> real \<Rightarrow> real" where
  "or_real a d = (case a of None \<Rightarrow> d | Some x \<Rightarrow> if x \<noteq> 0 then x else d)"

text \<open>A value that the source accepts either alone or as an array (\<open>Array.isArray(v) ? v : [v]\<close>).\<close>

datatype 'a one_or_many = One 'a | Many "'a list"

fun as_array :: "'a one_or_many \<Rightarrow> 'a list" where
  "as_array (One v) = [v]"
| "as_array (Many vs) = vs"


section \<open>Format translator (packages/core/src/provider/anthropic.ts)\<close>

subsection \<open>Requests\<close>

text \<open>
  A part either has a \<open>text\<close> property or is of another kind (inline data, function call, ...).
  An element of \<open>contents\<close> is a string, an array of parts, an object with a \<open>parts\<close> property
  (\<open>Content\<close>, whose \<open>parts\<close> may be undefined, a single part or an array), or any other object.
\<close>

datatype part = TextPart string | OtherPart

datatype content =
    StringContent string
  | PartArray "part list"
  | Content (role: "string option") (parts: "part one_or_many option")
  | OtherContent

record generation_config =
  maxOutputTokens :: "int option"
  temperature :: "real option"

record generate_content_request =
  contents :: "content one_or_many option"
  config :: "generation_config option"

record anthropic_config =
  apiKey :: "string option"
  model :: string
  baseUrl :: "string option"

record anthropic_message =
  msg_role :: string
  msg_content :: string

record anthropic_request =
  req_model :: string
  max_tokens :: int
  messages :: "anthropic_message list"
  req_temperature :: real

text \<open>The texts of the parts that have a \<open>text\<close> property, in order.\<close>

fun part_texts :: "part list \<Rightarrow> string list" where
  "part_texts [] = []"
| "part_texts (TextPart t # ps) = t # part_texts ps"
| "part_texts (OtherPart # ps) = part_texts ps"

definition role_of :: "string option \<Rightarrow> string" where
  \<comment> \<open>\<open>content.role === 'model' ? 'assistant' : 'user'\<close>\<close>
  "role_of r = (if r = Some ''model'' then ''assistant'' else ''user'')"

text \<open>
  The inner loop of the \<open>Content\<close> branch: one message is pushed for every part whose text is
  present and non-empty.
\<close>

fun parts_messages :: "string option \<Rightarrow> part list \<Rightarrow> anthropic_message list" where
  "parts_messages r [] = []"
| "parts_messages r (TextPart t # ps) =
     (if t \<noteq> [] then \<lparr>msg_role = role_of r, msg_content = t\<rparr> # parts_messages r ps
      else parts_messages r ps)"
| "parts_messages r (OtherPart # ps) = parts_messages r ps"

text \<open>The body of the loop over \<open>contentArray\<close>: the messages pushed for one element.\<close>

fun content_messages :: "content \<Rightarrow> anthropic_message list" where
  "content_messages (StringContent s) = [\<lparr>msg_role = ''user'', msg_content = s\<rparr>]"
| "content_messages (PartArray ps) =
     (let t = concat (part_texts ps)
      in if t \<noteq> [] then [\<lparr>msg_role = ''user'', msg_content = t\<rparr>] else [])"
| "content_messages (Content r ps) =
     (case ps of
        None \<Rightarrow> []
      | Some v \<Rightarrow> parts_messages r (as_array v))"
| "content_messages OtherContent = []"

text \<open>
  \<open>contentArray\<close>: an array is taken as it is, any other value is wrapped. A top-level array of
  parts is an array, so its elements are visited one by one; a part is an object without a
  \<open>parts\<close> property.
\<close>

fun content_array :: "content one_or_many \<Rightarrow> content list" where
  "content_array (One (PartArray ps)) = map (\<lambda>p. OtherContent) ps"
| "content_array (One c) = [c]"
| "content_array (Many cs) = cs"

definition contents_truthy :: "content one_or_many option \<Rightarrow> bool" where
  \<comment> \<open>\<open>if (request.contents)\<close>: undefined and the empty string are falsy\<close>
  "contents_truthy c = (case c of None \<Rightarrow> False
                        | Some (One (StringContent s)) \<Rightarrow> s \<noteq> []
                        | Some _ \<Rightarrow> True)"

definition convertToAnthropicFormat ::
  "anthropic_config \<Rightarrow> generate_content_request \<Rightarrow> anthropic_request" where
  "convertToAnthropicFormat cfg request =
     \<lparr>req_model = model cfg,
      max_tokens = or_int (case config request of None \<Rightarrow> None | Some c \<Rightarrow> maxOutputTokens c) 4096,
      messages = (case contents request of
                    None \<Rightarrow> []
                  | Some c \<Rightarrow> if contents_truthy (Some c)
                              then concat (map content_messages (content_array c))
                              else []),
      req_temperature = or_real (case config request of None \<Rightarrow> None | Some c \<Rightarrow> temperature c) 0.7\<rparr>"

subsection \<open>Responses\<close>

datatype FinishReason = STOP | MAX_TOKENS | OTHER

record content_block =
  block_type :: string
  block_text :: string

record usage =
  input_tokens :: int
  output_tokens :: int

record anthropic_response =
  content :: "content_block list"
  stop_reason :: "string option"
  resp_usage :: usage

record candidate =
  cand_parts :: "string list"
  cand_role :: string
  finishReason :: "FinishReason option"
  index :: nat

record usage_metadata =
  promptTokenCount :: int
  candidatesTokenCount :: int
  totalTokenCount :: int

record generate_content_response =
  candidates :: "candidate list"
  usageMetadata :: usage_metadata
  resp_text :: string

definition mapFinishReason :: "string option \<Rightarrow> FinishReason" where
  "mapFinishReason stopReason =
     (if stopReason = Some ''end_turn'' then STOP
      else if stopReason = Some ''max_tokens'' then MAX_TOKENS
      else if stopReason = Some ''stop_sequence'' then STOP
      else OTHER)"

definition convertToGeminiFormat :: "anthropic_response \<Rightarrow> generate_content_response" where
  "convertToGeminiFormat response =
     (let t = concat (map block_text (filter (\<lambda>item. block_type item = ''text'') (content response)))
      in \<lparr>candidates =
            [\<lparr>cand_parts = [t], cand_role = ''model'',
              finishReason = Some (mapFinishReason (stop_reason response)), index = 0\<rparr>],
          usageMetadata =
            \<lparr>promptTokenCount = input_tokens (resp_usage response),
             candidatesTokenCount = output_tokens (resp_usage response),
             totalTokenCount =
               input_tokens (resp_usage response) + output_tokens (resp_usage response)\<rparr>,
          resp_text = t\<rparr>)"

definition createStreamResponse :: "string \<Rightarrow> int \<Rightarrow> int \<Rightarrow> generate_content_response" where
  "createStreamResponse t inputTokens outputTokens =
     \<lparr>candidates =
        [\<lparr>cand_parts = [t], cand_role = ''model'', finishReason = None, index = 0\<rparr>],
      usageMetadata =
        \<lparr>promptTokenCount = inputTokens,
         candidatesTokenCount = outputTokens,
         totalTokenCount = inputTokens + outputTokens\<rparr>,
      resp_text = t\<rparr>"


section \<open>Stream event parser (\<open>streamGenerator\<close> in anthropic.ts)\<close>

subsection \<open>String operations\<close>

definition is_space :: "char \<Rightarrow> bool" where
  \<comment> \<open>the ASCII characters that \<open>String.prototype.trim\<close> removes\<close>
  "is_space c = (c \<in> {CHR '' '', CHR 0x09, CHR 0x0A, CHR 0x0B, CHR 0x0C, CHR 0x0D})"

definition trim :: "string \<Rightarrow> string" where
  "trim s = rev (dropWhile is_space (rev (dropWhile is_space s)))"

text \<open>
  \<open>s.split(sep)\<close> for a one-character separator: the pieces between the separators, in order;
  the result is never empty, and its last element is the text after the last separator.
\<close>

fun split :: "char \<Rightarrow> string \<Rightarrow> string list" where
  "split sep [] = [[]]"
| "split sep (c # cs) =
     (if c = sep then [] # split sep cs
      else (case split sep cs of
              [] \<Rightarrow> [[c]]
            | piece # pieces \<Rightarrow> (c # piece) # pieces))"

definition startsWith :: "string \<Rightarrow> string \<Rightarrow> bool" where
  "startsWith s p = (take (length p) s = p)"

definition endsWith :: "string \<Rightarrow> string \<Rightarrow> bool" where
  "endsWith s p = (length p \<le> length s \<and> drop (length s - length p) s = p)"

fun str_includes :: "string \<Rightarrow> string \<Rightarrow> bool" where
  "str_includes [] p = (p = [])"
| "str_includes (c # cs) p = (startsWith (c # cs) p \<or> str_includes cs p)"

subsection \<open>Events\<close>

text \<open>
  The value of \<open>JSON.parse(data)\<close>, seen through the properties that the parser reads and with
  the types of the provider's event schema. \<open>JSON.parse\<close> itself is a parameter of the model
  (\<open>JSON_parse\<close>); \<open>None\<close> stands for a payload on which the \<open>try\<close> block throws.
\<close>

record event_usage =
  ev_input_tokens :: "int option"
  ev_output_tokens :: "int option"

record event_message =
  message_usage :: "event_usage option"

record event_delta =
  delta_text :: "string option"

record stream_event =
  type :: "string option"
  message :: "event_message option"
  delta :: "event_delta option"
  event_usage :: "event_usage option"

text \<open>
  The running counters \<open>totalInputTokens\<close> and \<open>totalOutputTokens\<close>. A step of the parser
  returns the responses it yields, the new counters, and whether the generator returned.
\<close>

type_synonym counters = "int \<times> int"

type_synonym step_result = "generate_content_response list \<times> counters \<times> bool"

definition handle_event :: "stream_event \<Rightarrow> counters \<Rightarrow> step_result" where
  "handle_event parsed c =
     (case c of (totalInputTokens, totalOutputTokens) \<Rightarrow>
        if type parsed = Some ''message_start'' then
          ([], (or_int (Option.bind (Option.bind (message parsed) message_usage) ev_input_tokens) 0,
                totalOutputTokens), False)
        else if type parsed = Some ''content_block_delta'' then
          (let t = or_default (Option.bind (delta parsed) delta_text) []
           in if t \<noteq> []
              then ([createStreamResponse t totalInputTokens totalOutputTokens], c, False)
              else ([], c, False))
        else if type parsed = Some ''message_delta'' then
          ([], (totalInputTokens,
                or_int (Option.bind (event_usage parsed) ev_output_tokens) 0), False)
        else if type parsed = Some ''message_stop'' then ([], c, True)
        else ([], c, False))"

definition process_line :: "(string \<Rightarrow> stream_event option) \<Rightarrow> counters \<Rightarrow> string \<Rightarrow> step_result" where
  "process_line JSON_parse c line =
     (if trim line = [] then ([], c, False)
      else if startsWith line ''data: '' then
        (let data = drop 6 line
         in if data = ''[DONE]'' then ([], c, True)
            else (case JSON_parse data of
                    None \<Rightarrow> ([], c, False)
                  | Some parsed \<Rightarrow> handle_event parsed c))
      else ([], c, False))"

text \<open>The \<open>for (const line of lines)\<close> loop; it stops at the first line on which the generator returns.\<close>

fun process_lines :: "(string \<Rightarrow> stream_event option) \<Rightarrow> counters \<Rightarrow> string list \<Rightarrow> step_result" where
  "process_lines JSON_parse c [] = ([], c, False)"
| "process_lines JSON_parse c (line # lines) =
     (case process_line JSON_parse c line of
        (ys, c', True) \<Rightarrow> (ys, c', True)
      | (ys, c', False) \<Rightarrow>
          (case process_lines JSON_parse c' lines of (zs, c'', r) \<Rightarrow> (ys @ zs, c'', r)))"

text \<open>
  The \<open>while (true)\<close> loop over \<open>reader.read()\<close>, for a body that arrives as a finite list of
  text chunks and then reports \<open>done\<close>. The state is the buffer and the counters; the result is
  the sequence of yielded responses.
\<close>

fun read_loop ::
  "(string \<Rightarrow> stream_event option) \<Rightarrow> string \<Rightarrow> counters \<Rightarrow> string list \<Rightarrow> generate_content_response list" where
  "read_loop JSON_parse buffer c [] = []"
| "read_loop JSON_parse buffer c (chunk # chunks) =
     (let lines = split CHR 0x0A (buffer @ chunk)
      in case process_lines JSON_parse c (butlast lines) of
           (ys, c', True) \<Rightarrow> ys
         | (ys, c', False) \<Rightarrow> ys @ read_loop JSON_parse (last lines) c' chunks)"


section \<open>Stored credentials (packages/core/src/auth/anthropic.ts)\<close>

text \<open>
  The parsed contents of \<open>anthropic-auth.json\<close>. The file is read with a cast to
  \<open>OAuthTokens\<close>, so every property may be missing; a record written by the key-value store
  has \<open>type: 'api'\<close> and no token fields.
\<close>

record stored_auth =
  auth_type :: "string option"
  access :: "string option"
  refresh :: "string option"
  expires :: "int option"

definition CLIENT_ID :: string where
  "CLIENT_ID = ''9d1c250a-e61b-44d9-88ed-5944d1962f5e''"

definition REDIRECT_URI :: string where
  "REDIRECT_URI = ''https://console.anthropic.com/oauth/code/callback''"

text \<open>The JSON bodies posted to the token endpoint.\<close>

datatype token_request =
    AuthorizationCode (tr_code: string) (tr_state: string) (tr_client_id: string)
      (tr_redirect_uri: string) (tr_code_verifier: string)
  | RefreshToken (tr_refresh_token: "string option") (tr_client: string)

record token_json =
  access_token :: "string option"
  refresh_token :: "string option"
  expires_in :: "int option"

text \<open>
  A response of \<open>fetch\<close>: \<open>body_text\<close> is \<open>None\<close> when \<open>response.text()\<close> rejects, \<open>json\<close> is
  \<open>None\<close> when \<open>response.json()\<close> rejects or the value read from it has no properties.
\<close>

record token_response =
  ok :: bool
  status :: nat
  statusText :: string
  body_text :: "string option"
  json :: "token_json option"

record chat_request =
  chat_url :: string
  headers :: "(string \<times> string) list"
  body :: anthropic_request
  stream :: bool

record chat_response =
  chat_ok :: bool
  chat_status :: nat
  chat_statusText :: string
  chat_text :: "string option"
  chat_json :: "anthropic_response option"
  chat_body :: "string list option"

datatype platform = darwin | win32 | linux | other_platform

text \<open>
  Everything outside the program that one call reads: the clock, the network, the file system,
  the random PKCE generator, the URL and JSON parsers of the runtime, the process environment.
  A \<open>fetch\<close> that rejects is \<open>None\<close>.
\<close>

record env =
  now :: int
  now_store :: int
  token_endpoint :: "token_request \<Rightarrow> token_response option"
  chat_endpoint :: "chat_request \<Rightarrow> chat_response option"
  write_ok :: bool
  generatePKCE :: "string \<times> string"
  URL_search :: "string \<Rightarrow> (string option \<times> string option) option"
  JSON_parse :: "string \<Rightarrow> stream_event option"
  ANTHROPIC_API_KEY :: "string option"
  process_platform :: platform

record oauth_session =
  verifier :: string
  url :: string

text \<open>
  The mutable state: the credential file, the module variables of \<open>anthropicAuth.ts\<close>, and a
  log of the requests sent and commands executed.
\<close>

record world =
  auth_file :: "stored_auth option"
  oauthSession :: "oauth_session option"
  isOAuthInProgress :: bool
  isCompletingOAuth :: bool
  oauthLock :: bool
  token_requests :: "token_request list"
  chat_requests :: "chat_request list"
  executed :: "string list"

datatype error =
    NoActiveSession
  | CompletionInProgress
  | InvalidCallbackUrl
  | NoAuthorizationCode
  | CodeTooShort string
  | TokenExchangeFailed nat string string
  | FetchFailed
  | InvalidJson
  | StoreFailed
  | NoAuthentication
  | ApiError nat string string
  | NoResponseBody
  | UnsupportedPlatform
  | EmbeddingNotSupported
  | GenerateFailed error
  | StreamFailed error

definition storeTokens :: "env \<Rightarrow> stored_auth \<Rightarrow> world \<Rightarrow> (error + unit) \<times> world" where
  "storeTokens e tokens w =
     (if write_ok e then (Inr (), w\<lparr>auth_file := Some tokens\<rparr>) else (Inl StoreFailed, w))"

definition getAnthropicAccessToken :: "env \<Rightarrow> world \<Rightarrow> string option \<times> world" where
  "getAnthropicAccessToken e w =
     (case auth_file w of
        None \<Rightarrow> (None, w)
      | Some tokens \<Rightarrow>
          if auth_type tokens \<noteq> Some ''oauth'' then (None, w)
          else if truthy_str (access tokens)
                  \<and> (case expires tokens of None \<Rightarrow> False | Some t \<Rightarrow> t > now e)
          then (access tokens, w)
          else
            (let req = RefreshToken (refresh tokens) CLIENT_ID;
                 w1 = w\<lparr>token_requests := token_requests w @ [req]\<rparr>
             in case token_endpoint e req of
                  None \<Rightarrow> (None, w1)
                | Some response \<Rightarrow>
                    if \<not> ok response then (None, w1)
                    else (case json response of
                            None \<Rightarrow> (None, w1)
                          | Some newTokens \<Rightarrow>
                              (case storeTokens e
                                      \<lparr>auth_type = Some ''oauth'',
                                       access = access_token newTokens,
                                       refresh = refresh_token newTokens,
                                       expires = map_option (\<lambda>s. now_store e + s * 1000)
                                                   (expires_in newTokens)\<rparr> w1 of
                                 (Inl err, w2) \<Rightarrow> (None, w2)
                               | (Inr u, w2) \<Rightarrow> (access_token newTokens, w2)))))"

definition hasValidAnthropicTokens :: "env \<Rightarrow> world \<Rightarrow> bool \<times> world" where
  "hasValidAnthropicTokens e w =
     (case getAnthropicAccessToken e w of (token, w') \<Rightarrow> (truthy_str token, w'))"


section \<open>OAuth flow (packages/cli/src/config/anthropicAuth.ts)\<close>

subsection \<open>Authorization URL\<close>

definition hex_digit :: "nat \<Rightarrow> char" where
  "hex_digit n = ''0123456789ABCDEF'' ! (n mod 16)"

definition unreserved :: "char \<Rightarrow> bool" where
  "unreserved c = (c \<in> set ''abcdefghijklmnopqrstuvwxyzABCDEFGHIJKLMNOPQRSTUVWXYZ0123456789*-._'')"

definition encode_char :: "char \<Rightarrow> string" where
  \<comment> \<open>serialisation of one character of a \<open>URLSearchParams\<close> value\<close>
  "encode_char c =
     (if unreserved c then [c]
      else if c = CHR '' '' then ''+''
      else [CHR ''%'', hex_digit (of_char c div 16), hex_digit (of_char c mod 16)])"

definition encode :: "string \<Rightarrow> string" where
  "encode s = concat (map encode_char s)"

fun join :: "string \<Rightarrow> string list \<Rightarrow> string" where
  "join sep [] = []"
| "join sep [x] = x"
| "join sep (x # y # xs) = x @ sep @ join sep (y # xs)"

definition url_toString :: "string \<Rightarrow> (string \<times> string) list \<Rightarrow> string" where
  "url_toString base params =
     base @ ''?'' @ join ''&'' (map (\<lambda>(k, v). encode k @ ''='' @ encode v) params)"

definition generateAuthorizationUrl :: "env \<Rightarrow> string \<times> string" where
  \<comment> \<open>returns the URL and the verifier; \<open>generatePKCE\<close> gives the verifier and the challenge\<close>
  "generateAuthorizationUrl e =
     (case generatePKCE e of (pkce_verifier, pkce_challenge) \<Rightarrow>
        (url_toString ''https://claude.ai/oauth/authorize''
           [(''code'', ''true''),
            (''client_id'', CLIENT_ID),
            (''response_type'', ''code''),
            (''redirect_uri'', REDIRECT_URI),
            (''scope'', ''org:create_api_key user:profile user:inference''),
            (''code_challenge'', pkce_challenge),
            (''code_challenge_method'', ''S256''),
            (''state'', pkce_verifier)],
         pkce_verifier))"

definition openUrl :: "env \<Rightarrow> string \<Rightarrow> world \<Rightarrow> (error + unit) \<times> world" where
  \<comment> \<open>a failure of the executed command is caught inside and only logged\<close>
  "openUrl e u w =
     (case process_platform e of
        darwin \<Rightarrow> (Inr (), w\<lparr>executed := executed w @ [''open \"'' @ u @ ''\"'']\<rparr>)
      | win32 \<Rightarrow> (Inr (), w\<lparr>executed := executed w @ [''start \"'' @ u @ ''\"'']\<rparr>)
      | linux \<Rightarrow> (Inr (), w\<lparr>executed := executed w @ [''xdg-open \"'' @ u @ ''\"'']\<rparr>)
      | other_platform \<Rightarrow> (Inl UnsupportedPlatform, w))"

subsection \<open>Cleaning the pasted code\<close>

definition ESC :: char where
  "ESC = CHR 0x1B"

definition strip_prefix :: "string \<Rightarrow> string \<Rightarrow> string" where
  \<comment> \<open>\<open>s.replace(/^p/, '')\<close> for a literal \<open>p\<close>\<close>
  "strip_prefix p s = (if startsWith s p then drop (length p) s else s)"

definition strip_suffix :: "string \<Rightarrow> string \<Rightarrow> string" where
  \<comment> \<open>\<open>s.replace(/p$/, '')\<close> for a literal \<open>p\<close>\<close>
  "strip_suffix p s = (if endsWith s p then take (length s - length p) s else s)"

definition is_param :: "char \<Rightarrow> bool" where
  \<comment> \<open>the class \<open>[0-9;]\<close>\<close>
  "is_param c = (c \<in> set ''0123456789;'')"

definition is_final :: "char \<Rightarrow> bool" where
  \<comment> \<open>the class \<open>[mGKHF]\<close>\<close>
  "is_final c = (c \<in> set ''mGKHF'')"

text \<open>
  A match of \<open>ESC \[ [0-9;]* [mGKHF]\<close> at the start of the text: the text after the match. The two
  classes are disjoint, so the greedy star never has to give a character back.
\<close>

definition match_ansi :: "string \<Rightarrow> string option" where
  "match_ansi s =
     (case s of
        c # d # rest \<Rightarrow>
          if c = ESC \<and> d = CHR ''['' then
            (case dropWhile is_param rest of
               [] \<Rightarrow> None
             | f # after \<Rightarrow> if is_final f then Some after else None)
          else None
      | _ \<Rightarrow> None)"

lemma match_ansi_shorter: "match_ansi s = Some r \<Longrightarrow> length r < length s"
proof -
  assume m: "match_ansi s = Some r"
  then obtain c d rest where s: "s = c # d # rest"
    by (cases s; cases "tl s") (auto simp: match_ansi_def)
  from m s obtain f where "dropWhile is_param rest = f # r"
    by (auto simp: match_ansi_def split: if_splits list.splits)
  then have "length r < length (dropWhile is_param rest)" by simp
  also have "\<dots> \<le> length rest" by (rule length_dropWhile_le)
  finally show ?thesis using s by simp
qed

text \<open>The global replacement of the escape sequences by the empty string.\<close>

function remove_ansi :: "string \<Rightarrow> string" where
  "remove_ansi [] = []"
| "remove_ansi (c # cs) =
     (case match_ansi (c # cs) of
        Some r \<Rightarrow> remove_ansi r
      | None \<Rightarrow> c # remove_ansi cs)"
  by pat_completeness auto
termination
  by (relation "measure length") (auto dest: match_ansi_shorter)

definition clean_code :: "string \<Rightarrow> string" where
  "clean_code code =
     trim (remove_ansi (strip_suffix ''_'' (strip_suffix ''[201~'' (strip_prefix ''[200~'' (trim code)))))"

text \<open>
  The first half of \<open>exchangeCodeForTokens\<close>: the input is cleaned and split into the
  authorization code and the received state (a callback URL, the legacy \<open>code#state\<close> form, or
  the bare code).
\<close>

definition extract_code :: "env \<Rightarrow> string \<Rightarrow> error + (string \<times> string)" where
  "extract_code e code =
     (let cleaned = clean_code code
      in if str_includes cleaned ''?code='' then
           (case URL_search e cleaned of
              None \<Rightarrow> Inl InvalidCallbackUrl
            | Some (c, s) \<Rightarrow> Inr (or_default c [], or_default s []))
         else if str_includes cleaned ''#'' then
           (case split CHR ''#'' cleaned of
              first # second # rest \<Rightarrow> Inr (first, second)
            | [first] \<Rightarrow> Inr (first, [])
            | [] \<Rightarrow> Inr ([], []))
         else Inr (cleaned, []))"

text \<open>The two checks on the extracted code.\<close>

definition parse_code :: "env \<Rightarrow> string \<Rightarrow> error + (string \<times> string)" where
  "parse_code e code =
     (case extract_code e code of
        Inl err \<Rightarrow> Inl err
      | Inr (authCode, receivedState) \<Rightarrow>
          if authCode = [] then Inl NoAuthorizationCode
          else if length authCode < 10 then Inl (CodeTooShort authCode)
          else Inr (authCode, receivedState))"

definition exchangeCodeForTokens :: "env \<Rightarrow> string \<Rightarrow> string \<Rightarrow> world \<Rightarrow> (error + unit) \<times> world" where
  "exchangeCodeForTokens e code pkce_verifier w =
     (case parse_code e code of
        Inl err \<Rightarrow> (Inl err, w)
      | Inr (authCode, receivedState) \<Rightarrow>
          (let stateToUse = (if receivedState \<noteq> [] then receivedState else pkce_verifier);
               tokenRequest = AuthorizationCode authCode stateToUse CLIENT_ID REDIRECT_URI pkce_verifier;
               w1 = w\<lparr>token_requests := token_requests w @ [tokenRequest]\<rparr>
           in case token_endpoint e tokenRequest of
                None \<Rightarrow> (Inl FetchFailed, w1)
              | Some response \<Rightarrow>
                  if \<not> ok response then
                    (Inl (TokenExchangeFailed (status response) (statusText response)
                            (case body_text response of None \<Rightarrow> ''Unknown error'' | Some t \<Rightarrow> t)), w1)
                  else (case json response of
                          None \<Rightarrow> (Inl InvalidJson, w1)
                        | Some tokens \<Rightarrow>
                            storeTokens e
                              \<lparr>auth_type = Some ''oauth'',
                               access = access_token tokens,
                               refresh = refresh_token tokens,
                               expires = map_option (\<lambda>s. now_store e + s * 1000) (expires_in tokens)\<rparr>
                              w1)))"


subsection \<open>Starting, completing and clearing the flow\<close>

text \<open>The four message texts that \<open>startAnthropicOAuthFlow\<close> can return.\<close>

datatype flow_message =
    AlreadyInProgressAfterWait
  | AlreadyAuthenticated
  | InProgress
  | Started

text \<open>
  One call of \<open>startAnthropicOAuthFlow\<close>, run without interleaving: nothing else changes the
  state during the wait on the lock or while the call awaits. The lock is released by the
  \<open>finally\<close> block on every path that acquired it.
\<close>

definition startAnthropicOAuthFlow :: "env \<Rightarrow> world \<Rightarrow> (string \<times> flow_message) \<times> world" where
  "startAnthropicOAuthFlow e w =
     (if oauthLock w \<and> oauthSession w \<noteq> None
      then ((url (the (oauthSession w)), AlreadyInProgressAfterWait), w)
      else
        (let w1 = w\<lparr>oauthLock := True\<rparr>
         in case hasValidAnthropicTokens e w1 of
              (True, w2) \<Rightarrow> (([], AlreadyAuthenticated), w2\<lparr>oauthLock := False\<rparr>)
            | (False, w2) \<Rightarrow>
                if (isOAuthInProgress w2 \<or> isCompletingOAuth w2) \<and> oauthSession w2 \<noteq> None
                then ((url (the (oauthSession w2)), InProgress), w2\<lparr>oauthLock := False\<rparr>)
                else
                  (let w3 = w2\<lparr>isOAuthInProgress := True\<rparr>;
                       (u, v) = generateAuthorizationUrl e;
                       w4 = w3\<lparr>oauthSession := Some \<lparr>verifier = v, url = u\<rparr>\<rparr>;
                       w5 = snd (openUrl e u w4)
                   in ((u, Started), w5\<lparr>oauthLock := False\<rparr>))))"

definition completeAnthropicOAuthWithCode :: "env \<Rightarrow> string \<Rightarrow> world \<Rightarrow> (error + unit) \<times> world" where
  "completeAnthropicOAuthWithCode e code w =
     (case oauthSession w of
        None \<Rightarrow> (Inl NoActiveSession, w)
      | Some session \<Rightarrow>
          if isCompletingOAuth w then (Inl CompletionInProgress, w)
          else
            (let w1 = w\<lparr>isCompletingOAuth := True\<rparr>
             in case exchangeCodeForTokens e code (verifier session) w1 of
                  (Inr u, w2) \<Rightarrow>
                    (Inr (), w2\<lparr>oauthSession := None, isOAuthInProgress := False,
                                 isCompletingOAuth := False, oauthLock := False\<rparr>)
                | (Inl err, w2) \<Rightarrow>
                    (Inl err, w2\<lparr>isCompletingOAuth := False, isOAuthInProgress := False,
                                  oauthSession := None, oauthLock := False\<rparr>)))"

definition clearOAuthSession :: "world \<Rightarrow> world" where
  "clearOAuthSession w =
     w\<lparr>oauthSession := None, isOAuthInProgress := False,
       isCompletingOAuth := False, oauthLock := False\<rparr>"


section \<open>Content generator (\<open>AnthropicContentGenerator\<close> in anthropic.ts)\<close>

definition resolve_apiKey :: "env \<Rightarrow> anthropic_config \<Rightarrow> string option" where
  \<comment> \<open>\<open>this.config.apiKey || process.env.ANTHROPIC_API_KEY\<close>\<close>
  "resolve_apiKey e cfg = or_str (apiKey cfg) (ANTHROPIC_API_KEY e)"

definition auth_headers :: "string option \<Rightarrow> string option \<Rightarrow> (string \<times> string) list" where
  \<comment> \<open>the headers of the request, given the resolved key and the OAuth token\<close>
  "auth_headers key oauthToken =
     [(''Content-Type'', ''application/json''), (''anthropic-version'', ''2023-06-01'')]
     @ (if truthy_str oauthToken
        then [(''Authorization'', ''Bearer '' @ or_default oauthToken []),
              (''anthropic-beta'', ''oauth-2025-04-20'')]
        else if truthy_str key then [(''x-api-key'', or_default key [])]
        else [])"

definition base_url :: "anthropic_config \<Rightarrow> string" where
  \<comment> \<open>\<open>config.baseUrl || 'https://api.anthropic.com'\<close>, set by the constructor\<close>
  "base_url cfg = or_default (baseUrl cfg) ''https://api.anthropic.com''"

text \<open>
  The steps shared by \<open>generateContent\<close> and \<open>streamGenerator\<close>: resolve the credentials, build
  the request, send it, and reject a response that is not \<open>ok\<close>.
\<close>

definition send_request ::
  "env \<Rightarrow> anthropic_config \<Rightarrow> generate_content_request \<Rightarrow> bool \<Rightarrow> world \<Rightarrow> (error + chat_response) \<times> world" where
  "send_request e cfg request streaming w =
     (let key = resolve_apiKey e cfg
      in case getAnthropicAccessToken e w of (oauthToken, w1) \<Rightarrow>
           if \<not> truthy_str key \<and> \<not> truthy_str oauthToken then (Inl NoAuthentication, w1)
           else
             (let req = \<lparr>chat_url = base_url cfg @ ''/v1/messages'',
                         headers = auth_headers key oauthToken,
                         body = convertToAnthropicFormat cfg request,
                         stream = streaming\<rparr>;
                  w2 = w1\<lparr>chat_requests := chat_requests w1 @ [req]\<rparr>
              in case chat_endpoint e req of
                   None \<Rightarrow> (Inl FetchFailed, w2)
                 | Some response \<Rightarrow>
                     if \<not> chat_ok response then
                       (Inl (ApiError (chat_status response) (chat_statusText response)
                               (case chat_text response of
                                  None \<Rightarrow> ''Unable to read error response'' | Some t \<Rightarrow> t)), w2)
                     else (Inr response, w2)))"

definition generateContent ::
  "env \<Rightarrow> anthropic_config \<Rightarrow> generate_content_request \<Rightarrow> world
     \<Rightarrow> (error + generate_content_response) \<times> world" where
  "generateContent e cfg request w =
     (case send_request e cfg request False w of
        (Inl err, w') \<Rightarrow> (Inl (GenerateFailed err), w')
      | (Inr response, w') \<Rightarrow>
          (case chat_json response of
             None \<Rightarrow> (Inl (GenerateFailed InvalidJson), w')
           | Some anthropicResponse \<Rightarrow> (Inr (convertToGeminiFormat anthropicResponse), w')))"

text \<open>
  The generator, for a body whose reads all succeed: the responses it yields, and the error it
  ends with, if any.
\<close>

definition streamGenerator ::
  "env \<Rightarrow> anthropic_config \<Rightarrow> generate_content_request \<Rightarrow> world
     \<Rightarrow> (generate_content_response list \<times> error option) \<times> world" where
  "streamGenerator e cfg request w =
     (case send_request e cfg request True w of
        (Inl err, w') \<Rightarrow> (([], Some (StreamFailed err)), w')
      | (Inr response, w') \<Rightarrow>
          (case chat_body response of
             None \<Rightarrow> (([], Some (StreamFailed NoResponseBody)), w')
           | Some chunks \<Rightarrow> ((read_loop (JSON_parse e) [] (0, 0) chunks, None), w')))"

definition embedContent :: "(error + unit)" where
  "embedContent = Inl EmbeddingNotSupported"


section \<open>Sample inputs\<close>

text \<open>Concrete configurations, environments and states, used to run the model.\<close>

definition sample_config :: anthropic_config where
  "sample_config = \<lparr>apiKey = Some ''test-api-key'', model = ''claude-sonnet-4-20250514'', baseUrl = None\<rparr>"

definition sample_response :: anthropic_response where
  "sample_response =
     \<lparr>content = [\<lparr>block_type = ''text'', block_text = ''Hello! ''\<rparr>,
                 \<lparr>block_type = ''tool_use'', block_text = ''ignored''\<rparr>,
                 \<lparr>block_type = ''text'', block_text = ''This is Claude.''\<rparr>],
      stop_reason = Some ''end_turn'',
      resp_usage = \<lparr>input_tokens = 10, output_tokens = 15\<rparr>\<rparr>"

definition sample_parse :: "string \<Rightarrow> stream_event option" where
  \<open>sample_parse s =
     (if s = ''{"type":"message_start","message":{"usage":{"input_tokens":7}}}'' then
        Some \<lparr>type = Some ''message_start'',
              message = Some \<lparr>message_usage = Some \<lparr>ev_input_tokens = Some 7, ev_output_tokens = None\<rparr>\<rparr>,
              delta = None, event_usage = None\<rparr>
      else if s = ''{"type":"content_block_delta","delta":{"text":"Hi"}}'' then
        Some \<lparr>type = Some ''content_block_delta'', message = None,
              delta = Some \<lparr>delta_text = Some ''Hi''\<rparr>, event_usage = None\<rparr>
      else if s = ''{"type":"content_block_delta","delta":{}}'' then
        Some \<lparr>type = Some ''content_block_delta'', message = None,
              delta = Some \<lparr>delta_text = None\<rparr>, event_usage = None\<rparr>
      else if s = ''{"type":"message_delta","usage":{"output_tokens":3}}'' then
        Some \<lparr>type = Some ''message_delta'', message = None, delta = None,
              event_usage = Some \<lparr>ev_input_tokens = None, ev_output_tokens = Some 3\<rparr>\<rparr>
      else if s = ''{"type":"ping"}'' then
        Some \<lparr>type = Some ''ping'', message = None, delta = None, event_usage = None\<rparr>
      else if s = ''{"type":"message_stop"}'' then
        Some \<lparr>type = Some ''message_stop'', message = None, delta = None, event_usage = None\<rparr>
      else None)\<close>

text \<open>An environment without network: every \<open>fetch\<close> rejects.\<close>

definition offline_env :: env where
  "offline_env =
     \<lparr>now = 1000, now_store = 1001,
      token_endpoint = (\<lambda>req. None),
      chat_endpoint = (\<lambda>req. None),
      write_ok = True,
      generatePKCE = (''verifier-one'', ''challenge-one''),
      URL_search = (\<lambda>u. None),
      JSON_parse = sample_parse,
      ANTHROPIC_API_KEY = None,
      process_platform = linux\<rparr>"

text \<open>An environment whose token endpoint issues fresh tokens and whose chat endpoint answers.\<close>

definition online_env :: env where
  "online_env =
     \<lparr>now = 1000, now_store = 1001,
      token_endpoint = (\<lambda>req. Some \<lparr>ok = True, status = 200, statusText = ''OK'', body_text = None,
                                   json = Some \<lparr>access_token = Some ''fresh-access'',
                                                refresh_token = Some ''fresh-refresh'',
                                                expires_in = Some 3600\<rparr>\<rparr>),
      chat_endpoint = (\<lambda>req. Some \<lparr>chat_ok = True, chat_status = 200, chat_statusText = ''OK'',
                                  chat_text = None, chat_json = Some sample_response,
                                  chat_body = None\<rparr>),
      write_ok = True,
      generatePKCE = (''verifier-two'', ''challenge-two''),
      URL_search = (\<lambda>u. None),
      JSON_parse = sample_parse,
      ANTHROPIC_API_KEY = Some ''env-api-key'',
      process_platform = linux\<rparr>"

definition initial_world :: world where
  "initial_world =
     \<lparr>auth_file = None, oauthSession = None, isOAuthInProgress = False,
      isCompletingOAuth = False, oauthLock = False,
      token_requests = [], chat_requests = [], executed = []\<rparr>"

definition awaiting_code :: world where
  \<comment> \<open>a flow has been started and the user has not yet pasted the code\<close>
  "awaiting_code =
     initial_world\<lparr>oauthSession := Some \<lparr>verifier = ''verifier-one'', url = ''https://claude.ai/oauth/authorize?code=true''\<rparr>,
                   isOAuthInProgress := True\<rparr>"

definition stored_oauth :: stored_auth where
  "stored_oauth =
     \<lparr>auth_type = Some ''oauth'', access = Some ''stored-access'',
      refresh = Some ''stored-refresh'', expires = Some 5000\<rparr>"

definition signed_in :: world where
  \<comment> \<open>an unexpired OAuth credential is stored\<close>
  "signed_in = initial_world\<lparr>auth_file := Some stored_oauth\<rparr>"

definition expired_world :: world where
  "expired_world = initial_world\<lparr>auth_file := Some (stored_oauth\<lparr>expires := Some 999\<rparr>)\<rparr>"

definition blank_access :: world where
  \<comment> \<open>an unexpired OAuth credential whose access token is the empty string\<close>
  "blank_access = initial_world\<lparr>auth_file := Some (stored_oauth\<lparr>access := Some []\<rparr>)\<rparr>"

definition api_record :: world where
  \<comment> \<open>the stored record is a static API key, not an OAuth credential\<close>
  "api_record =
     initial_world\<lparr>auth_file := Some \<lparr>auth_type = Some ''api'', access = None,
                                      refresh = None, expires = None\<rparr>\<rparr>"


section \<open>Notions used in the statements\<close>

text \<open>The non-empty texts of a turn's parts, and a turn given by its role and its array of parts.\<close>

definition nonempty_texts :: "part list \<Rightarrow> string list" where
  "nonempty_texts ps = filter (\<lambda>t. t \<noteq> []) (part_texts ps)"

definition content_of_turn :: "string option \<times> part list \<Rightarrow> content" where
  "content_of_turn turn = Content (fst turn) (Some (Many (snd turn)))"


section \<open>Properties of the format translator\<close>

lemma parts_messages_eq:
  "parts_messages r ps = map (\<lambda>t. \<lparr>msg_role = role_of r, msg_content = t\<rparr>) (nonempty_texts ps)"
  by (induction r ps rule: parts_messages.induct) (simp_all add: nonempty_texts_def)

lemma concat_filter_nonempty: "concat (filter (\<lambda>t. t \<noteq> []) ts) = concat ts"
  by (induction ts) simp_all

lemma single_nonempty_text: "nonempty_texts ps = [t] \<Longrightarrow> concat (part_texts ps) = t"
  using concat_filter_nonempty [of "part_texts ps"] by (simp add: nonempty_texts_def)

lemma turn_messages:
  "content_messages (content_of_turn turn) =
     map (\<lambda>t. \<lparr>msg_role = role_of (fst turn), msg_content = t\<rparr>) (nonempty_texts (snd turn))"
  by (simp add: content_of_turn_def parts_messages_eq)

text \<open>
  Claim C1, as stated, fails: a turn is not translated into one message carrying the concatenated
  text of its parts. A single \<open>user\<close> turn with the two text parts \<open>a\<close> and \<open>b\<close> gives two
  messages, not the one message \<open>ab\<close>.
\<close>

theorem convertToAnthropicFormat_turn_counterexample:
  "messages (convertToAnthropicFormat sample_config
      \<lparr>contents = Some (Many [Content (Some ''user'') (Some (Many [TextPart ''a'', TextPart ''b'']))]),
       config = None\<rparr>)
     = [\<lparr>msg_role = ''user'', msg_content = ''a''\<rparr>, \<lparr>msg_role = ''user'', msg_content = ''b''\<rparr>]
   \<and> messages (convertToAnthropicFormat sample_config
      \<lparr>contents = Some (Many [Content (Some ''user'') (Some (Many [TextPart ''a'', TextPart ''b'']))]),
       config = None\<rparr>)
     \<noteq> [\<lparr>msg_role = ''user'', msg_content = ''ab''\<rparr>]"
  by (simp add: convertToAnthropicFormat_def contents_truthy_def role_of_def)

text \<open>
  Claim C1, amended: for a request whose contents are an array of turns (role and parts),
  \<open>convertToAnthropicFormat\<close> emits, in turn order and within a turn in part order, one message
  for every part with non-empty text, with role \<open>model\<close> mapped to \<open>assistant\<close> and every other
  role to \<open>user\<close>. So when every turn has exactly one part with non-empty text, the message list
  has exactly one entry per turn, in the order of the turns, and the content of each entry is
  the concatenation of the texts of its turn.
\<close>

theorem convertToAnthropicFormat_messages:
  assumes "contents request = Some (Many (map content_of_turn turns))"
  shows "messages (convertToAnthropicFormat cfg request) =
           concat (map (\<lambda>turn. map (\<lambda>t. \<lparr>msg_role = role_of (fst turn), msg_content = t\<rparr>)
                                 (nonempty_texts (snd turn))) turns)
         \<and> ((\<forall>turn \<in> set turns. length (nonempty_texts (snd turn)) = 1) \<longrightarrow>
              messages (convertToAnthropicFormat cfg request) =
                map (\<lambda>turn. \<lparr>msg_role = role_of (fst turn),
                             msg_content = concat (part_texts (snd turn))\<rparr>) turns)"
proof -
  have m: "messages (convertToAnthropicFormat cfg request) =
             concat (map (\<lambda>turn. map (\<lambda>t. \<lparr>msg_role = role_of (fst turn), msg_content = t\<rparr>)
                                 (nonempty_texts (snd turn))) turns)"
    using assms
    by (simp add: convertToAnthropicFormat_def contents_truthy_def map_concat comp_def turn_messages)
  have "concat (map (\<lambda>turn. map (\<lambda>t. \<lparr>msg_role = role_of (fst turn), msg_content = t\<rparr>)
                                 (nonempty_texts (snd turn))) turns)
        = map (\<lambda>turn. \<lparr>msg_role = role_of (fst turn),
                             msg_content = concat (part_texts (snd turn))\<rparr>) turns"
    if "\<forall>turn \<in> set turns. length (nonempty_texts (snd turn)) = 1"
    using that
  proof (induction turns)
    case Nil
    then show ?case by simp
  next
    case (Cons a turns)
    then obtain t where t: "nonempty_texts (snd a) = [t]"
      by (cases "nonempty_texts (snd a)") auto
    with Cons show ?case by (simp add: single_nonempty_text)
  qed
  with m show ?thesis by simp
qed

theorem convertToAnthropicFormat_messages_witness:
  "messages (convertToAnthropicFormat sample_config
      \<lparr>contents = Some (Many (map content_of_turn
                    [(Some ''user'', [TextPart ''Hi'']),
                     (Some ''model'', [OtherPart, TextPart ''Hello'', TextPart []])])),
       config = None\<rparr>)
     = [\<lparr>msg_role = ''user'', msg_content = ''Hi''\<rparr>,
        \<lparr>msg_role = ''assistant'', msg_content = ''Hello''\<rparr>]"
  using convertToAnthropicFormat_messages
    [of "\<lparr>contents = Some (Many (map content_of_turn
                    [(Some ''user'', [TextPart ''Hi'']),
                     (Some ''model'', [OtherPart, TextPart ''Hello'', TextPart []])])),
         config = None\<rparr>"
        "[(Some ''user'', [TextPart ''Hi'']),
          (Some ''model'', [OtherPart, TextPart ''Hello'', TextPart []])]"
        sample_config]
  by (simp add: nonempty_texts_def role_of_def)

text \<open>
  Claim C9: a configured temperature of zero and a configured maximum of zero output tokens are
  replaced by the defaults \<open>0.7\<close> and \<open>4096\<close>, as an unspecified value is.
\<close>

theorem convertToAnthropicFormat_zero_defaults:
  assumes "config request = Some c"
  shows "(temperature c = Some 0 \<longrightarrow> req_temperature (convertToAnthropicFormat cfg request) = 0.7)
       \<and> (maxOutputTokens c = Some 0 \<longrightarrow> max_tokens (convertToAnthropicFormat cfg request) = 4096)"
  using assms by (simp add: convertToAnthropicFormat_def or_real_def or_int_def)

theorem convertToAnthropicFormat_zero_defaults_witness:
  "req_temperature (convertToAnthropicFormat sample_config
      \<lparr>contents = None, config = Some \<lparr>maxOutputTokens = Some 0, temperature = Some 0\<rparr>\<rparr>) = 0.7
   \<and> max_tokens (convertToAnthropicFormat sample_config
      \<lparr>contents = None, config = Some \<lparr>maxOutputTokens = Some 0, temperature = Some 0\<rparr>\<rparr>) = 4096"
  using convertToAnthropicFormat_zero_defaults
    [of "\<lparr>contents = None, config = Some \<lparr>maxOutputTokens = Some 0, temperature = Some 0\<rparr>\<rparr>"
        "\<lparr>maxOutputTokens = Some 0, temperature = Some 0\<rparr>" sample_config]
  by simp

text \<open>
  Claim C6: \<open>convertToGeminiFormat\<close> maps the stop reason by the fixed table, puts the
  concatenated text of the blocks of type \<open>text\<close> into a single candidate, and reports the sum of
  the input and output tokens as the total; a response that stopped with \<open>end_turn\<close> has finish
  reason \<open>STOP\<close> and a total equal to the prompt count plus the candidate count.
\<close>

theorem convertToGeminiFormat_table:
  "mapFinishReason (Some ''end_turn'') = STOP
   \<and> mapFinishReason (Some ''stop_sequence'') = STOP
   \<and> mapFinishReason (Some ''max_tokens'') = MAX_TOKENS
   \<and> (s \<notin> {Some ''end_turn'', Some ''stop_sequence'', Some ''max_tokens''} \<longrightarrow> mapFinishReason s = OTHER)
   \<and> candidates (convertToGeminiFormat r) =
        [\<lparr>cand_parts = [concat (map block_text (filter (\<lambda>b. block_type b = ''text'') (content r)))],
          cand_role = ''model'', finishReason = Some (mapFinishReason (stop_reason r)), index = 0\<rparr>]
   \<and> promptTokenCount (usageMetadata (convertToGeminiFormat r)) = input_tokens (resp_usage r)
   \<and> candidatesTokenCount (usageMetadata (convertToGeminiFormat r)) = output_tokens (resp_usage r)
   \<and> totalTokenCount (usageMetadata (convertToGeminiFormat r)) =
       input_tokens (resp_usage r) + output_tokens (resp_usage r)
   \<and> (stop_reason r = Some ''end_turn'' \<longrightarrow>
        map finishReason (candidates (convertToGeminiFormat r)) = [Some STOP]
        \<and> totalTokenCount (usageMetadata (convertToGeminiFormat r)) =
            promptTokenCount (usageMetadata (convertToGeminiFormat r))
            + candidatesTokenCount (usageMetadata (convertToGeminiFormat r)))"
  by (simp add: mapFinishReason_def convertToGeminiFormat_def Let_def)

theorem convertToGeminiFormat_table_witness:
  "mapFinishReason (Some ''tool_use'') = OTHER
   \<and> mapFinishReason None = OTHER
   \<and> candidates (convertToGeminiFormat sample_response) =
        [\<lparr>cand_parts = [''Hello! This is Claude.''], cand_role = ''model'',
          finishReason = Some STOP, index = 0\<rparr>]
   \<and> totalTokenCount (usageMetadata (convertToGeminiFormat sample_response)) = 25"
  using convertToGeminiFormat_table [of "Some ''tool_use''" sample_response]
    convertToGeminiFormat_table [of None sample_response]
  by (simp add: sample_response_def)

section \<open>Properties of the stream event parser\<close>

lemma split_not_Nil: "split sep s \<noteq> []"
  by (induction s) (simp_all split: list.splits)

lemma split_no_sep: "sep \<notin> set s \<Longrightarrow> split sep s = [s]"
  by (induction s) auto

lemma split_Cons:
  "split sep (c # cs) =
     (if c = sep then [] # split sep cs else (c # hd (split sep cs)) # tl (split sep cs))"
  using split_not_Nil [of sep cs] by (cases "split sep cs") simp_all

lemma last_split_no_sep: "sep \<notin> set (last (split sep s))"
proof (induction s)
  case Nil
  then show ?case by simp
next
  case (Cons c s)
  show ?case
  proof (cases "split sep s")
    case Nil
    then show ?thesis using split_not_Nil [of sep s] by simp
  next
    case (Cons l ls)
    with Cons.IH show ?thesis by (cases ls) auto
  qed
qed

text \<open>Splitting a text that arrives in two pieces: the unterminated tail of the first piece is
  completed by the second.\<close>

lemma split_append:
  "split sep (a @ b) = butlast (split sep a) @ split sep (last (split sep a) @ b)"
proof (induction a)
  case Nil
  then show ?case by simp
next
  case (Cons c a)
  show ?case
  proof (cases "split sep a")
    case Nil
    then show ?thesis using split_not_Nil [of sep a] by simp
  next
    case outer: (Cons l ls)
    show ?thesis
    proof (cases ls)
      case Nil
      with outer Cons.IH show ?thesis by simp
    next
      case (Cons l' ls')
      with outer Cons.IH show ?thesis by (simp add: split_not_Nil)
    qed
  qed
qed

lemma process_lines_append:
  "process_lines P c (xs @ ys) =
     (case process_lines P c xs of
        (us, c', True) \<Rightarrow> (us, c', True)
      | (us, c', False) \<Rightarrow>
          (case process_lines P c' ys of (vs, c'', r) \<Rightarrow> (us @ vs, c'', r)))"
proof (induction xs arbitrary: c)
  case Nil
  then show ?case by (simp split: prod.splits)
next
  case (Cons x xs)
  then show ?case by (simp split: prod.splits bool.splits)
qed

text \<open>
  The loop yields what the terminated lines of the whole text yield, whatever the chunks: the
  buffer never holds a newline, and it is the unterminated tail of the text read so far.
\<close>

lemma read_loop_lines:
  "CHR 0x0A \<notin> set buffer \<Longrightarrow>
   read_loop P buffer c chunks =
     fst (process_lines P c (butlast (split CHR 0x0A (buffer @ concat chunks))))"
proof (induction chunks arbitrary: buffer c)
  case Nil
  then show ?case by (simp add: split_no_sep)
next
  case (Cons chunk chunks)
  let ?lines = "split CHR 0x0A (buffer @ chunk)"
  have sp: "butlast (split CHR 0x0A (buffer @ concat (chunk # chunks))) =
          butlast ?lines @ butlast (split CHR 0x0A (last ?lines @ concat chunks))"
    using split_append [of "CHR 0x0A" "buffer @ chunk" "concat chunks"]
    by (simp add: butlast_append split_not_Nil)
  have ih: "read_loop P (last ?lines) c' chunks =
     fst (process_lines P c' (butlast (split CHR 0x0A (last ?lines @ concat chunks))))" for c'
    by (rule Cons.IH) (rule last_split_no_sep)
  show ?case
    unfolding sp process_lines_append
    by (simp add: ih Let_def split: prod.splits bool.splits)
qed

lemma dropWhile_all: "(\<forall>x \<in> set (dropWhile P xs). P x) \<longleftrightarrow> (\<forall>x \<in> set xs. P x)"
  by (induction xs) auto

lemma trim_Nil_iff: "trim s = [] \<longleftrightarrow> (\<forall>c \<in> set s. is_space c)"
  by (simp add: trim_def dropWhile_all)

lemma process_line_data:
  "process_line P c (''data: '' @ data) =
     (if data = ''[DONE]'' then ([], c, True)
      else (case P data of None \<Rightarrow> ([], c, False) | Some parsed \<Rightarrow> handle_event parsed c))"
  by (simp add: process_line_def trim_Nil_iff is_space_def startsWith_def)

text \<open>
  Claim C4: two ways of cutting the same text into chunks make the parser yield the same
  sequence of responses, namely what the newline-terminated lines of the text yield in order;
  the unterminated tail is kept in the buffer and never processed early.
\<close>

theorem read_loop_chunking:
  assumes "concat chunks = concat chunks'"
  shows "read_loop P [] c chunks = read_loop P [] c chunks'
       \<and> read_loop P [] c chunks = fst (process_lines P c (butlast (split CHR 0x0A (concat chunks))))"
  using assms by (simp add: read_loop_lines)

theorem read_loop_chunking_witness:
  \<open>read_loop sample_parse [] (0, 0)
      (map (\<lambda>c. [c]) (''data: {"type":"content_block_delta","delta":{"text":"Hi"}}'' @ [CHR 0x0A] @ ''data: [DO''))
    = read_loop sample_parse [] (0, 0)
      [''data: {"type":"content_block_delta","delta":{"text":"Hi"}}'' @ [CHR 0x0A] @ ''data: [DO'']
   \<and> read_loop sample_parse [] (0, 0)
      [''data: {"type":"content_block_delta","delta":{"text":"Hi"}}'' @ [CHR 0x0A] @ ''data: [DO'']
      = [createStreamResponse ''Hi'' 0 0]\<close>
proof -
  have same: \<open>concat (map (\<lambda>c. [c]) (''data: {"type":"content_block_delta","delta":{"text":"Hi"}}'' @ [CHR 0x0A] @ ''data: [DO''))
     = concat [''data: {"type":"content_block_delta","delta":{"text":"Hi"}}'' @ [CHR 0x0A] @ ''data: [DO'']\<close>
    by simp
  have val: \<open>read_loop sample_parse [] (0, 0)
      [''data: {"type":"content_block_delta","delta":{"text":"Hi"}}'' @ [CHR 0x0A] @ ''data: [DO'']
      = [createStreamResponse ''Hi'' 0 0]\<close>
    by (simp add: process_line_def trim_def is_space_def startsWith_def sample_parse_def
        handle_event_def or_str_def or_default_def truthy_str_def)
  from read_loop_chunking [OF same, of sample_parse "(0, 0)"] val show ?thesis
    by (simp only:)
qed

text \<open>
  Claim C5: a \<open>content_block_delta\<close> event with non-empty delta text yields exactly one response,
  carrying that text, the current counters and no finish reason; a \<open>content_block_delta\<close> event
  without text, a \<open>message_start\<close> event, a \<open>message_delta\<close> event and an event of any other type
  except \<open>message_stop\<close> yield nothing, \<open>message_start\<close> setting only the input counter and
  \<open>message_delta\<close> only the output counter.
\<close>

theorem process_line_events:
  assumes "P data = Some parsed" and "data \<noteq> ''[DONE]''"
  shows "(type parsed = Some ''content_block_delta'' \<longrightarrow>
            (\<forall>t. Option.bind (delta parsed) delta_text = Some t \<and> t \<noteq> [] \<longrightarrow>
               process_line P (i, out) (''data: '' @ data)
                 = ([createStreamResponse t i out], (i, out), False)
               \<and> resp_text (createStreamResponse t i out) = t
               \<and> candidates (createStreamResponse t i out)
                   = [\<lparr>cand_parts = [t], cand_role = ''model'', finishReason = None, index = 0\<rparr>]
               \<and> promptTokenCount (usageMetadata (createStreamResponse t i out)) = i
               \<and> candidatesTokenCount (usageMetadata (createStreamResponse t i out)) = out)
            \<and> (Option.bind (delta parsed) delta_text \<in> {None, Some []} \<longrightarrow>
                 process_line P (i, out) (''data: '' @ data) = ([], (i, out), False)))
       \<and> (type parsed = Some ''message_start'' \<longrightarrow>
            process_line P (i, out) (''data: '' @ data)
              = ([], (or_int (Option.bind (Option.bind (message parsed) message_usage) ev_input_tokens) 0,
                      out), False))
       \<and> (type parsed = Some ''message_delta'' \<longrightarrow>
            process_line P (i, out) (''data: '' @ data)
              = ([], (i, or_int (Option.bind (event_usage parsed) ev_output_tokens) 0), False))
       \<and> (type parsed \<notin> {Some ''message_start'', Some ''content_block_delta'',
                           Some ''message_delta'', Some ''message_stop''} \<longrightarrow>
            process_line P (i, out) (''data: '' @ data) = ([], (i, out), False))"
proof -
  have pl: "process_line P (i, out) (''data: '' @ data) = handle_event parsed (i, out)"
    using assms by (simp only: process_line_data) simp
  show ?thesis
    unfolding pl
    by (auto simp: handle_event_def createStreamResponse_def or_str_def or_default_def truthy_str_def)
qed

theorem process_line_events_witness:
  \<open>process_line sample_parse (7, 2) (''data: '' @ ''{"type":"content_block_delta","delta":{"text":"Hi"}}'')
     = ([createStreamResponse ''Hi'' 7 2], (7, 2), False)
   \<and> process_line sample_parse (7, 2) (''data: '' @ ''{"type":"content_block_delta","delta":{}}'')
     = ([], (7, 2), False)
   \<and> process_line sample_parse (0, 2) (''data: '' @ ''{"type":"message_start","message":{"usage":{"input_tokens":7}}}'')
     = ([], (7, 2), False)
   \<and> process_line sample_parse (7, 0) (''data: '' @ ''{"type":"message_delta","usage":{"output_tokens":3}}'')
     = ([], (7, 3), False)
   \<and> process_line sample_parse (7, 2) (''data: '' @ ''{"type":"ping"}'')
     = ([], (7, 2), False)\<close>
proof -
  have a: \<open>process_line sample_parse (7, 2) (''data: '' @ ''{"type":"content_block_delta","delta":{"text":"Hi"}}'')
     = ([createStreamResponse ''Hi'' 7 2], (7, 2), False)\<close>
    using process_line_events [of sample_parse \<open>''{"type":"content_block_delta","delta":{"text":"Hi"}}''\<close> _ 7 2]
    by (simp add: sample_parse_def)
  have b: \<open>process_line sample_parse (7, 2) (''data: '' @ ''{"type":"content_block_delta","delta":{}}'')
     = ([], (7, 2), False)\<close>
    using process_line_events [of sample_parse \<open>''{"type":"content_block_delta","delta":{}}''\<close> _ 7 2]
    by (simp add: sample_parse_def)
  have c: \<open>process_line sample_parse (0, 2) (''data: '' @ ''{"type":"message_start","message":{"usage":{"input_tokens":7}}}'')
     = ([], (7, 2), False)\<close>
    using process_line_events [of sample_parse \<open>''{"type":"message_start","message":{"usage":{"input_tokens":7}}}''\<close> _ 0 2]
    by (simp add: sample_parse_def or_int_def)
  have d: \<open>process_line sample_parse (7, 0) (''data: '' @ ''{"type":"message_delta","usage":{"output_tokens":3}}'')
     = ([], (7, 3), False)\<close>
    using process_line_events [of sample_parse \<open>''{"type":"message_delta","usage":{"output_tokens":3}}''\<close> _ 7 0]
    by (simp add: sample_parse_def or_int_def)
  have e: \<open>process_line sample_parse (7, 2) (''data: '' @ ''{"type":"ping"}'')
     = ([], (7, 2), False)\<close>
    using process_line_events [of sample_parse \<open>''{"type":"ping"}''\<close> _ 7 2]
    by (simp add: sample_parse_def)
  from a b c d e show ?thesis by (simp only: simp_thms)
qed

section \<open>Properties of the stored credentials\<close>

text \<open>
  Claim C10: a stored record whose type is not \<open>oauth\<close> makes \<open>getAnthropicAccessToken\<close> return
  null at once: nothing is sent to the token endpoint and nothing is written, exactly as when
  no record is stored.
\<close>

theorem getAnthropicAccessToken_other_type:
  assumes "auth_file w = Some tokens" and "auth_type tokens \<noteq> Some ''oauth''"
  shows "getAnthropicAccessToken e w = (None, w)
       \<and> getAnthropicAccessToken e (w\<lparr>auth_file := None\<rparr>) = (None, w\<lparr>auth_file := None\<rparr>)"
  using assms by (simp add: getAnthropicAccessToken_def)

theorem getAnthropicAccessToken_other_type_witness:
  "getAnthropicAccessToken online_env api_record = (None, api_record)
   \<and> token_requests (snd (getAnthropicAccessToken online_env api_record)) = []"
  using getAnthropicAccessToken_other_type
    [of api_record "\<lparr>auth_type = Some ''api'', access = None, refresh = None, expires = None\<rparr>" online_env]
  by (simp add: api_record_def initial_world_def)

text \<open>
  Claim C8, as stated, fails: an unexpired OAuth credential does not always make
  \<open>getAnthropicAccessToken\<close> return the stored access token. When the stored access token is the
  empty string, the token endpoint is asked for new tokens although the expiry lies in the
  future, and the new access token is returned.
\<close>

theorem getAnthropicAccessToken_blank_counterexample:
  "auth_file blank_access =
     Some \<lparr>auth_type = Some ''oauth'', access = Some [], refresh = Some ''stored-refresh'',
           expires = Some 5000\<rparr>
   \<and> now online_env = 1000
   \<and> fst (getAnthropicAccessToken online_env blank_access) = Some ''fresh-access''
   \<and> token_requests (snd (getAnthropicAccessToken online_env blank_access))
       = [RefreshToken (Some ''stored-refresh'') CLIENT_ID]"
  by (simp add: getAnthropicAccessToken_def blank_access_def initial_world_def stored_oauth_def
      online_env_def truthy_str_def storeTokens_def)

text \<open>
  Claim C8, amended: for a stored OAuth credential, \<open>getAnthropicAccessToken\<close> returns the stored
  access token when that token is non-empty and the expiry is strictly after now; otherwise
  (token missing or empty, expiry missing or not after now) it sends one refresh request with
  the stored refresh token. It returns null when nothing is stored, when the refresh call
  rejects, when the response is not a success, when the response body cannot be read, and when
  the new tokens cannot be written; as a total function it never throws.
\<close>

theorem getAnthropicAccessToken_cases:
  "(auth_file w = None \<longrightarrow> getAnthropicAccessToken e w = (None, w))
   \<and> (\<forall>tokens. auth_file w = Some tokens \<and> auth_type tokens = Some ''oauth'' \<longrightarrow>
        (truthy_str (access tokens) \<and> (\<exists>t. expires tokens = Some t \<and> now e < t) \<longrightarrow>
           getAnthropicAccessToken e w = (access tokens, w))
        \<and> (\<not> (truthy_str (access tokens) \<and> (\<exists>t. expires tokens = Some t \<and> now e < t)) \<longrightarrow>
             token_requests (snd (getAnthropicAccessToken e w))
               = token_requests w @ [RefreshToken (refresh tokens) CLIENT_ID]
             \<and> (token_endpoint e (RefreshToken (refresh tokens) CLIENT_ID) = None \<longrightarrow>
                  fst (getAnthropicAccessToken e w) = None)
             \<and> (\<forall>response. token_endpoint e (RefreshToken (refresh tokens) CLIENT_ID) = Some response
                    \<and> (\<not> ok response \<or> json response = None \<or> \<not> write_ok e) \<longrightarrow>
                  fst (getAnthropicAccessToken e w) = None)
             \<and> (\<forall>response newTokens.
                    token_endpoint e (RefreshToken (refresh tokens) CLIENT_ID) = Some response
                    \<and> ok response \<and> json response = Some newTokens \<and> write_ok e \<longrightarrow>
                  fst (getAnthropicAccessToken e w) = access_token newTokens)))"
  by (auto simp: getAnthropicAccessToken_def storeTokens_def Let_def
      split: option.splits)

theorem getAnthropicAccessToken_cases_witness:
  "getAnthropicAccessToken online_env initial_world = (None, initial_world)
   \<and> getAnthropicAccessToken online_env signed_in = (Some ''stored-access'', signed_in)
   \<and> token_requests (snd (getAnthropicAccessToken offline_env expired_world))
       = [RefreshToken (Some ''stored-refresh'') CLIENT_ID]
   \<and> fst (getAnthropicAccessToken offline_env expired_world) = None
   \<and> fst (getAnthropicAccessToken online_env expired_world) = Some ''fresh-access''"
  using getAnthropicAccessToken_cases [of initial_world online_env]
    getAnthropicAccessToken_cases [of signed_in online_env]
    getAnthropicAccessToken_cases [of expired_world offline_env]
    getAnthropicAccessToken_cases [of expired_world online_env]
  by (simp add: initial_world_def signed_in_def expired_world_def stored_oauth_def
      online_env_def offline_env_def truthy_str_def)

section \<open>Properties of the OAuth flow\<close>

text \<open>Reading the access token touches only the credential file and the log of token requests.\<close>

lemma getAnthropicAccessToken_frame:
  "oauthSession (snd (getAnthropicAccessToken e w)) = oauthSession w"
  "isOAuthInProgress (snd (getAnthropicAccessToken e w)) = isOAuthInProgress w"
  "isCompletingOAuth (snd (getAnthropicAccessToken e w)) = isCompletingOAuth w"
  "oauthLock (snd (getAnthropicAccessToken e w)) = oauthLock w"
  "chat_requests (snd (getAnthropicAccessToken e w)) = chat_requests w"
  "executed (snd (getAnthropicAccessToken e w)) = executed w"
  by (simp_all add: getAnthropicAccessToken_def storeTokens_def Let_def split: option.splits)

lemma getAnthropicAccessToken_lock:
  "getAnthropicAccessToken e (w\<lparr>oauthLock := b\<rparr>) =
     (fst (getAnthropicAccessToken e w), (snd (getAnthropicAccessToken e w))\<lparr>oauthLock := b\<rparr>)"
  by (simp add: getAnthropicAccessToken_def storeTokens_def Let_def split: option.splits)

lemma hasValidAnthropicTokens_frame:
  "oauthSession (snd (hasValidAnthropicTokens e w)) = oauthSession w"
  "isOAuthInProgress (snd (hasValidAnthropicTokens e w)) = isOAuthInProgress w"
  "isCompletingOAuth (snd (hasValidAnthropicTokens e w)) = isCompletingOAuth w"
  "oauthLock (snd (hasValidAnthropicTokens e w)) = oauthLock w"
  "executed (snd (hasValidAnthropicTokens e w)) = executed w"
  by (simp_all add: hasValidAnthropicTokens_def split_beta getAnthropicAccessToken_frame)

lemma hasValidAnthropicTokens_lock:
  "hasValidAnthropicTokens e (w\<lparr>oauthLock := b\<rparr>) =
     (fst (hasValidAnthropicTokens e w), (snd (hasValidAnthropicTokens e w))\<lparr>oauthLock := b\<rparr>)"
  by (simp add: hasValidAnthropicTokens_def split_beta getAnthropicAccessToken_lock)

lemma openUrl_frame:
  "oauthSession (snd (openUrl e u w)) = oauthSession w"
  "isOAuthInProgress (snd (openUrl e u w)) = isOAuthInProgress w"
  "isCompletingOAuth (snd (openUrl e u w)) = isCompletingOAuth w"
  by (simp_all add: openUrl_def split: platform.splits)

text \<open>After a start without a valid credential a session is active, and its URL was returned.\<close>

lemma start_post:
  assumes "\<not> fst (hasValidAnthropicTokens e w)"
  shows "oauthSession (snd (startAnthropicOAuthFlow e w)) \<noteq> None
       \<and> url (the (oauthSession (snd (startAnthropicOAuthFlow e w)))) = fst (fst (startAnthropicOAuthFlow e w))
       \<and> (oauthLock (snd (startAnthropicOAuthFlow e w))
          \<or> isOAuthInProgress (snd (startAnthropicOAuthFlow e w))
          \<or> isCompletingOAuth (snd (startAnthropicOAuthFlow e w)))"
proof (cases "oauthLock w \<and> oauthSession w \<noteq> None")
  case True
  then show ?thesis by (simp add: startAnthropicOAuthFlow_def)
next
  case False
  obtain w2 where hv: "hasValidAnthropicTokens e (w\<lparr>oauthLock := True\<rparr>) = (False, w2)"
    using assms by (simp add: hasValidAnthropicTokens_lock)
  have fr: "oauthSession w2 = oauthSession w" "isOAuthInProgress w2 = isOAuthInProgress w"
    "isCompletingOAuth w2 = isCompletingOAuth w"
    using hasValidAnthropicTokens_frame [of e "w\<lparr>oauthLock := True\<rparr>"] hv by simp_all
  show ?thesis
  proof (cases "(isOAuthInProgress w2 \<or> isCompletingOAuth w2) \<and> oauthSession w2 \<noteq> None")
    case True
    with False hv show ?thesis
      by (auto simp: startAnthropicOAuthFlow_def Let_def)
  next
    case no: False
    with False hv show ?thesis
      by (auto simp: startAnthropicOAuthFlow_def Let_def openUrl_frame split: prod.splits)
  qed
qed

text \<open>A start that finds an active session returns the stored URL and leaves the session alone.\<close>

lemma start_existing:
  assumes "oauthSession w \<noteq> None"
    and "oauthLock w \<or> isOAuthInProgress w \<or> isCompletingOAuth w"
    and "\<not> fst (hasValidAnthropicTokens e w)"
  shows "fst (fst (startAnthropicOAuthFlow e w)) = url (the (oauthSession w))
       \<and> oauthSession (snd (startAnthropicOAuthFlow e w)) = oauthSession w
       \<and> executed (snd (startAnthropicOAuthFlow e w)) = executed w"
proof (cases "oauthLock w")
  case True
  with assms show ?thesis by (simp add: startAnthropicOAuthFlow_def)
next
  case False
  obtain w2 where hv: "hasValidAnthropicTokens e (w\<lparr>oauthLock := True\<rparr>) = (False, w2)"
    using assms by (simp add: hasValidAnthropicTokens_lock)
  have fr: "oauthSession w2 = oauthSession w" "isOAuthInProgress w2 = isOAuthInProgress w"
    "isCompletingOAuth w2 = isCompletingOAuth w" "executed w2 = executed w"
    using hasValidAnthropicTokens_frame [of e "w\<lparr>oauthLock := True\<rparr>"] hv by simp_all
  from False assms hv fr show ?thesis
    by (auto simp: startAnthropicOAuthFlow_def Let_def)
qed

text \<open>
  Claim C7: when no valid credential exists at either call, a second \<open>startAnthropicOAuthFlow\<close>
  returns the URL that the first one returned; it finds the session of the first call active and
  leaves it as it is, without generating a new PKCE pair or opening the browser again.
\<close>

theorem startAnthropicOAuthFlow_twice:
  assumes "\<not> fst (hasValidAnthropicTokens e1 w)"
    and "\<not> fst (hasValidAnthropicTokens e2 (snd (startAnthropicOAuthFlow e1 w)))"
  shows "fst (fst (startAnthropicOAuthFlow e2 (snd (startAnthropicOAuthFlow e1 w))))
           = fst (fst (startAnthropicOAuthFlow e1 w))
       \<and> oauthSession (snd (startAnthropicOAuthFlow e1 w)) \<noteq> None
       \<and> oauthSession (snd (startAnthropicOAuthFlow e2 (snd (startAnthropicOAuthFlow e1 w))))
           = oauthSession (snd (startAnthropicOAuthFlow e1 w))
       \<and> executed (snd (startAnthropicOAuthFlow e2 (snd (startAnthropicOAuthFlow e1 w))))
           = executed (snd (startAnthropicOAuthFlow e1 w))"
  using start_post [OF assms(1)]
    start_existing [of "snd (startAnthropicOAuthFlow e1 w)" e2] assms(2)
  by simp

theorem startAnthropicOAuthFlow_twice_witness:
  "fst (fst (startAnthropicOAuthFlow online_env (snd (startAnthropicOAuthFlow offline_env initial_world))))
     = fst (fst (startAnthropicOAuthFlow offline_env initial_world))
   \<and> oauthSession (snd (startAnthropicOAuthFlow online_env (snd (startAnthropicOAuthFlow offline_env initial_world))))
     = oauthSession (snd (startAnthropicOAuthFlow offline_env initial_world))
   \<and> map_option verifier (oauthSession (snd (startAnthropicOAuthFlow offline_env initial_world)))
     = Some ''verifier-one''"
proof -
  have h1: "\<not> fst (hasValidAnthropicTokens offline_env initial_world)"
    by (simp add: hasValidAnthropicTokens_def getAnthropicAccessToken_def initial_world_def
        truthy_str_def)
  have w1: "auth_file (snd (startAnthropicOAuthFlow offline_env initial_world)) = None
     \<and> map_option verifier (oauthSession (snd (startAnthropicOAuthFlow offline_env initial_world)))
       = Some ''verifier-one''"
    by (simp add: startAnthropicOAuthFlow_def hasValidAnthropicTokens_def
        getAnthropicAccessToken_def initial_world_def truthy_str_def Let_def
        generateAuthorizationUrl_def offline_env_def openUrl_def)
  then have h2: "\<not> fst (hasValidAnthropicTokens online_env (snd (startAnthropicOAuthFlow offline_env initial_world)))"
    by (simp add: hasValidAnthropicTokens_def getAnthropicAccessToken_def truthy_str_def)
  from startAnthropicOAuthFlow_twice [OF h1 h2] w1 show ?thesis by simp
qed

text \<open>The authorization URL for a sample PKCE pair, as \<open>url.toString()\<close> serialises it.\<close>

lemma generateAuthorizationUrl_sample:
  "fst (generateAuthorizationUrl offline_env) =
    ''https://claude.ai/oauth/authorize?code=true&client_id=9d1c250a-e61b-44d9-88ed-5944d1962f5e&response_type=code&redirect_uri=https%3A%2F%2Fconsole.anthropic.com%2Foauth%2Fcode%2Fcallback&scope=org%3Acreate_api_key+user%3Aprofile+user%3Ainference&code_challenge=challenge-one&code_challenge_method=S256&state=verifier-one''"
  by (simp add: generateAuthorizationUrl_def offline_env_def url_toString_def encode_def
      encode_char_def unreserved_def hex_digit_def CLIENT_ID_def REDIRECT_URI_def)

text \<open>
  Claim C2, as stated, fails: a completion attempt with an empty code fails, but the session does
  not survive it. From the state in which the flow awaits the code, the empty input gives the
  error for a missing code and clears the session, and a retry with a well-formed code, which
  would have succeeded on the original session, finds no active session.
\<close>

theorem completeAnthropicOAuthWithCode_empty_counterexample:
  "oauthSession awaiting_code \<noteq> None
   \<and> fst (completeAnthropicOAuthWithCode online_env [] awaiting_code) = Inl NoAuthorizationCode
   \<and> oauthSession (snd (completeAnthropicOAuthWithCode online_env [] awaiting_code)) = None
   \<and> fst (completeAnthropicOAuthWithCode online_env ''valid-authorization-code''
            (snd (completeAnthropicOAuthWithCode online_env [] awaiting_code)))
       = Inl NoActiveSession
   \<and> fst (completeAnthropicOAuthWithCode online_env ''valid-authorization-code'' awaiting_code)
       = Inr ()"
  by (simp add: completeAnthropicOAuthWithCode_def exchangeCodeForTokens_def parse_code_def
      extract_code_def clean_code_def trim_def is_space_def strip_prefix_def strip_suffix_def
      startsWith_def endsWith_def match_ansi_def ESC_def awaiting_code_def initial_world_def
      online_env_def storeTokens_def Let_def)

text \<open>
  Claim C2, amended: if \<open>completeAnthropicOAuthWithCode\<close> is called with an active session, no
  completion in flight, and an input whose extracted code is empty or shorter than ten
  characters, it fails with the error for a missing or too short code, sends nothing to the
  token endpoint, and clears the session together with all flags, as \<open>clearOAuthSession\<close> does;
  a later completion attempt, whatever its code, fails for lack of an active session until the
  flow is started again.
\<close>

theorem completeAnthropicOAuthWithCode_invalid_code:
  assumes "oauthSession w = Some session"
    and "\<not> isCompletingOAuth w"
    and "extract_code e code = Inr (authCode, receivedState)"
    and "length authCode < 10"
  shows "completeAnthropicOAuthWithCode e code w
           = (Inl (if authCode = [] then NoAuthorizationCode else CodeTooShort authCode),
              clearOAuthSession w)
       \<and> oauthSession (clearOAuthSession w) = None
       \<and> token_requests (clearOAuthSession w) = token_requests w
       \<and> completeAnthropicOAuthWithCode e' code' (clearOAuthSession w)
           = (Inl NoActiveSession, clearOAuthSession w)"
  using assms
  by (simp add: completeAnthropicOAuthWithCode_def exchangeCodeForTokens_def parse_code_def
      clearOAuthSession_def)

theorem completeAnthropicOAuthWithCode_invalid_code_witness:
  "completeAnthropicOAuthWithCode offline_env ''[200~abc_'' awaiting_code
     = (Inl (CodeTooShort ''abc''), clearOAuthSession awaiting_code)
   \<and> completeAnthropicOAuthWithCode online_env ''valid-authorization-code''
        (clearOAuthSession awaiting_code)
     = (Inl NoActiveSession, clearOAuthSession awaiting_code)"
proof -
  have s: "oauthSession awaiting_code
             = Some \<lparr>verifier = ''verifier-one'', url = ''https://claude.ai/oauth/authorize?code=true''\<rparr>"
    and c: "\<not> isCompletingOAuth awaiting_code"
    by (simp_all add: awaiting_code_def initial_world_def)
  have x: "extract_code offline_env ''[200~abc_'' = Inr (''abc'', [])"
    by (simp add: extract_code_def clean_code_def trim_def is_space_def strip_prefix_def
        strip_suffix_def startsWith_def endsWith_def match_ansi_def ESC_def)
  have l: "length ''abc'' < (10::nat)" by simp
  from completeAnthropicOAuthWithCode_invalid_code [OF s c x l, of online_env "''valid-authorization-code''"]
  show ?thesis by simp
qed

section \<open>Properties of the content generator\<close>

text \<open>What \<open>send_request\<close> adds to the log of chat requests, and when it fails for lack of credentials.\<close>

lemma send_request_log:
  "chat_requests (snd (send_request e cfg request streaming w)) =
     (if \<not> truthy_str (resolve_apiKey e cfg) \<and> \<not> truthy_str (fst (getAnthropicAccessToken e w))
      then chat_requests w
      else chat_requests w @
             [\<lparr>chat_url = base_url cfg @ ''/v1/messages'',
               headers = auth_headers (resolve_apiKey e cfg) (fst (getAnthropicAccessToken e w)),
               body = convertToAnthropicFormat cfg request,
               stream = streaming\<rparr>])"
  using getAnthropicAccessToken_frame(5) [of e w]
  by (cases "getAnthropicAccessToken e w")
     (simp add: send_request_def Let_def split: option.splits)

lemma send_request_no_auth:
  "\<not> truthy_str (resolve_apiKey e cfg) \<Longrightarrow> \<not> truthy_str (fst (getAnthropicAccessToken e w)) \<Longrightarrow>
   fst (send_request e cfg request streaming w) = Inl NoAuthentication"
  by (cases "getAnthropicAccessToken e w") (simp add: send_request_def Let_def)

lemma generateContent_world:
  "snd (generateContent e cfg request w) = snd (send_request e cfg request False w)"
  by (simp add: generateContent_def split: prod.splits sum.splits option.splits)

lemma streamGenerator_world:
  "snd (streamGenerator e cfg request w) = snd (send_request e cfg request True w)"
  by (simp add: streamGenerator_def split: prod.splits sum.splits option.splits)

text \<open>
  Claim C3, as stated, fails: an available API key does not make the request carry the
  \<open>x-api-key\<close> header. With an explicit configuration key, an environment key and an unexpired
  stored OAuth credential, the request is sent with the bearer token and without any
  \<open>x-api-key\<close> header.
\<close>

theorem generateContent_oauth_first_counterexample:
  "apiKey sample_config = Some ''test-api-key''
   \<and> ANTHROPIC_API_KEY online_env = Some ''env-api-key''
   \<and> map headers (chat_requests (snd (generateContent online_env sample_config
          \<lparr>contents = Some (One (StringContent ''Hi'')), config = None\<rparr> signed_in)))
       = [[(''Content-Type'', ''application/json''), (''anthropic-version'', ''2023-06-01''),
           (''Authorization'', ''Bearer stored-access''), (''anthropic-beta'', ''oauth-2025-04-20'')]]"
  by (simp add: generateContent_world send_request_log resolve_apiKey_def or_str_def or_default_def
      truthy_str_def auth_headers_def getAnthropicAccessToken_def signed_in_def
      initial_world_def stored_oauth_def sample_config_def online_env_def)

text \<open>
  Claim C3, amended: the API key is the explicit configuration key if that is non-empty and the
  environment key otherwise, and the OAuth access token is always asked for. When an OAuth
  token is available, \<open>generateContent\<close> and \<open>streamGenerator\<close> send the request with the bearer
  header and the beta marker, and with no \<open>x-api-key\<close> header, whether or not an API key
  exists. Only when no OAuth token is available is the request sent with the \<open>x-api-key\<close> header,
  for the configuration key first and the environment key second. When neither a key nor a
  token is available, both fail with the no-authentication error and send nothing.
\<close>

theorem credential_resolution:
  "(\<forall>token. fst (getAnthropicAccessToken e w) = Some token \<and> token \<noteq> [] \<longrightarrow>
      map headers (chat_requests (snd (generateContent e cfg request w)))
        = map headers (chat_requests w) @
          [[(''Content-Type'', ''application/json''), (''anthropic-version'', ''2023-06-01''),
            (''Authorization'', ''Bearer '' @ token), (''anthropic-beta'', ''oauth-2025-04-20'')]]
      \<and> map headers (chat_requests (snd (streamGenerator e cfg request w)))
        = map headers (chat_requests (snd (generateContent e cfg request w))))
   \<and> (\<not> truthy_str (fst (getAnthropicAccessToken e w)) \<longrightarrow>
        (\<forall>key. (apiKey cfg = Some key \<and> key \<noteq> []
                \<or> \<not> truthy_str (apiKey cfg) \<and> ANTHROPIC_API_KEY e = Some key \<and> key \<noteq> []) \<longrightarrow>
           map headers (chat_requests (snd (generateContent e cfg request w)))
             = map headers (chat_requests w) @
               [[(''Content-Type'', ''application/json''), (''anthropic-version'', ''2023-06-01''),
                 (''x-api-key'', key)]]
           \<and> map headers (chat_requests (snd (streamGenerator e cfg request w)))
             = map headers (chat_requests (snd (generateContent e cfg request w))))
        \<and> (\<not> truthy_str (apiKey cfg) \<and> \<not> truthy_str (ANTHROPIC_API_KEY e) \<longrightarrow>
             fst (generateContent e cfg request w) = Inl (GenerateFailed NoAuthentication)
             \<and> fst (streamGenerator e cfg request w) = ([], Some (StreamFailed NoAuthentication))
             \<and> chat_requests (snd (generateContent e cfg request w)) = chat_requests w
             \<and> chat_requests (snd (streamGenerator e cfg request w)) = chat_requests w))"
proof -
  have fail: "fst (generateContent e cfg request w) = Inl (GenerateFailed NoAuthentication)
      \<and> fst (streamGenerator e cfg request w) = ([], Some (StreamFailed NoAuthentication))"
    if "\<not> truthy_str (resolve_apiKey e cfg)" "\<not> truthy_str (fst (getAnthropicAccessToken e w))"
    using send_request_no_auth [OF that, of request False] send_request_no_auth [OF that, of request True]
    by (cases "send_request e cfg request False w"; cases "send_request e cfg request True w")
       (simp add: generateContent_def streamGenerator_def)
  show ?thesis
    using fail
    by (auto simp: generateContent_world streamGenerator_world send_request_log
        resolve_apiKey_def or_str_def or_default_def truthy_str_def auth_headers_def split: option.splits)
qed

theorem credential_resolution_witness:
  "map headers (chat_requests (snd (generateContent online_env sample_config
      \<lparr>contents = Some (One (StringContent ''Hi'')), config = None\<rparr> signed_in)))
     = [[(''Content-Type'', ''application/json''), (''anthropic-version'', ''2023-06-01''),
         (''Authorization'', ''Bearer stored-access''), (''anthropic-beta'', ''oauth-2025-04-20'')]]
   \<and> map headers (chat_requests (snd (generateContent online_env sample_config
      \<lparr>contents = Some (One (StringContent ''Hi'')), config = None\<rparr> initial_world)))
     = [[(''Content-Type'', ''application/json''), (''anthropic-version'', ''2023-06-01''),
         (''x-api-key'', ''test-api-key'')]]
   \<and> map headers (chat_requests (snd (generateContent online_env (sample_config\<lparr>apiKey := None\<rparr>)
      \<lparr>contents = Some (One (StringContent ''Hi'')), config = None\<rparr> initial_world)))
     = [[(''Content-Type'', ''application/json''), (''anthropic-version'', ''2023-06-01''),
         (''x-api-key'', ''env-api-key'')]]
   \<and> fst (generateContent offline_env (sample_config\<lparr>apiKey := None\<rparr>)
      \<lparr>contents = Some (One (StringContent ''Hi'')), config = None\<rparr> initial_world)
     = Inl (GenerateFailed NoAuthentication)"
proof -
  have t1: "getAnthropicAccessToken online_env signed_in = (Some ''stored-access'', signed_in)"
    by (simp add: getAnthropicAccessToken_def signed_in_def initial_world_def stored_oauth_def
        online_env_def truthy_str_def)
  have t2: "getAnthropicAccessToken e initial_world = (None, initial_world)" for e
    by (simp add: getAnthropicAccessToken_def initial_world_def)
  have logs: "chat_requests signed_in = []" "chat_requests initial_world = []"
    by (simp_all add: signed_in_def initial_world_def)
  have keys: "apiKey sample_config = Some ''test-api-key''"
    "ANTHROPIC_API_KEY online_env = Some ''env-api-key''" "ANTHROPIC_API_KEY offline_env = None"
    by (simp_all add: sample_config_def online_env_def offline_env_def)
  show ?thesis
    using credential_resolution [of online_env signed_in sample_config]
      credential_resolution [of online_env initial_world sample_config]
      credential_resolution [of online_env initial_world "sample_config\<lparr>apiKey := None\<rparr>"]
      credential_resolution [of offline_env initial_world "sample_config\<lparr>apiKey := None\<rparr>"]
    by (simp add: t1 t2 logs keys truthy_str_def)
qed

end
